theory Spec2Isabelle
  imports Complex_Main
begin

section \<open>JavaScript values used by the client\<close>

text \<open>
  \<^verbatim>\<open>localStorage\<close> is a dictionary from keys to strings; \<^verbatim>\<open>getItem\<close> answers
  \<^verbatim>\<open>null\<close> (here \<open>None\<close>) for a key that is not stored.
\<close>

type_synonym storage = "string \<rightharpoonup> string"

definition getItem :: "storage \<Rightarrow> string \<Rightarrow> string option" where
  "getItem ls k = ls k"

definition setItem :: "storage \<Rightarrow> string \<Rightarrow> string \<Rightarrow> storage" where
  "setItem ls k v = ls(k \<mapsto> v)"

definition removeItem_storage :: "storage \<Rightarrow> string \<Rightarrow> storage" where
  "removeItem_storage ls k = ls(k := None)"

text \<open>Truthiness of a value of type \<^verbatim>\<open>string | null\<close>: null and the empty string are falsy.\<close>

fun truthy :: "string option \<Rightarrow> bool" where
  "truthy None = False"
| "truthy (Some s) = (s \<noteq> [])"

text \<open>
  Template-literal interpolation \<^verbatim>\<open>${v}\<close> and the string conversion of
  \<^verbatim>\<open>setItem\<close>: \<^verbatim>\<open>null\<close> prints as \<open>null\<close>, \<^verbatim>\<open>undefined\<close> as \<open>undefined\<close>.
\<close>

fun string_of_nullable :: "string option \<Rightarrow> string" where
  "string_of_nullable None = ''null''"
| "string_of_nullable (Some s) = s"

fun string_of_optional :: "string option \<Rightarrow> string" where
  "string_of_optional None = ''undefined''"
| "string_of_optional (Some s) = s"

text \<open>\<^verbatim>\<open>String.prototype.includes\<close>: the argument occurs as a contiguous substring.\<close>

fun starts_with :: "string \<Rightarrow> string \<Rightarrow> bool" where
  "starts_with s [] = True"
| "starts_with [] (c # cs) = False"
| "starts_with (x # xs) (c # cs) = (x = c \<and> starts_with xs cs)"

fun includes_str :: "string \<Rightarrow> string \<Rightarrow> bool" where
  "includes_str [] sub = (sub = [])"
| "includes_str (x # xs) sub = (starts_with (x # xs) sub \<or> includes_str xs sub)"

section \<open>Requests, responses and errors\<close>

text \<open>
  The fields of an axios request configuration that the interceptors read or write:
  \<^verbatim>\<open>url\<close> (possibly undefined), the marker \<^verbatim>\<open>_retry\<close> (undefined counts as
  false) and \<^verbatim>\<open>headers.Authorization\<close>.
\<close>

record request_config =
  url :: "string option"
  retry :: bool
  authorization :: "string option"

text \<open>
  The body of an error response is whatever the server sent: a JSON value as the
  parser produced it. An object keeps its members in the order of the text; where a
  key occurs twice the later member is the one a read finds.
\<close>

datatype json =
    JNull
  | JBool bool
  | JNumber rat
  | JString string
  | JArray "json list"
  | JObject "(string \<times> json) list"

text \<open>
  An error response: its status and \<^verbatim>\<open>response.data\<close>, which is undefined (here
  \<open>None\<close>) when the response has no body. \<^verbatim>\<open>AuthContext.login\<close> casts the
  response to \<^verbatim>\<open>{ status: number; data: { data?: { can_restore?: boolean } } }\<close>;
  the cast checks nothing at run time.
\<close>

record error_response =
  status :: int
  response_data :: "json option"

text \<open>A value that is null or undefined; reading a property of it raises.\<close>

fun nullish :: "json option \<Rightarrow> bool" where
  "nullish None = True"
| "nullish (Some JNull) = True"
| "nullish (Some v) = False"

text \<open>
  Reading the property \<^verbatim>\<open>data\<close> or \<^verbatim>\<open>can_restore\<close> of a value that is neither
  null nor undefined: an object answers its member, or undefined when it has none;
  arrays, strings, numbers and booleans have no property of these names.
\<close>

fun get_property :: "json \<Rightarrow> string \<Rightarrow> json option" where
  "get_property (JObject members) k = map_of (rev members) k"
| "get_property v k = None"

text \<open>Optional chaining \<^verbatim>\<open>v?.k\<close>: undefined when \<open>v\<close> is null or undefined.\<close>

fun optional_property :: "json option \<Rightarrow> string \<Rightarrow> json option" where
  "optional_property None k = None"
| "optional_property (Some v) k = get_property v k"

text \<open>Truthiness of a JSON value or undefined.\<close>

fun js_truthy :: "json option \<Rightarrow> bool" where
  "js_truthy None = False"
| "js_truthy (Some JNull) = False"
| "js_truthy (Some (JBool b)) = b"
| "js_truthy (Some (JNumber n)) = (n \<noteq> 0)"
| "js_truthy (Some (JString s)) = (s \<noteq> [])"
| "js_truthy (Some (JArray vs)) = True"
| "js_truthy (Some (JObject members)) = True"

text \<open>
  Values that reach a \<^verbatim>\<open>catch\<close> or a rejection handler: an axios error (its
  \<^verbatim>\<open>config\<close> and \<^verbatim>\<open>response\<close> may be undefined), a plain \<^verbatim>\<open>Error\<close> with its
  message, a \<^verbatim>\<open>TypeError\<close> raised by the runtime, and a thrown value that is not
  an object.
\<close>

datatype js_error =
    AxiosError (config: "request_config option") (response: "error_response option")
  | Error string
  | TypeError string
  | Thrown string

fun instanceof_Error :: "js_error \<Rightarrow> bool" where
  "instanceof_Error (Thrown v) = False"
| "instanceof_Error e = True"

text \<open>\<^verbatim>\<open>error.response?.status\<close> and \<^verbatim>\<open>error.config\<close>.\<close>

fun response_status :: "js_error \<Rightarrow> int option" where
  "response_status (AxiosError c (Some r)) = Some (status r)"
| "response_status e = None"

fun error_config :: "js_error \<Rightarrow> request_config option" where
  "error_config (AxiosError c r) = c"
| "error_config e = None"

text \<open>
  The body of a successful refresh response, \<^verbatim>\<open>response.data\<close>: null, or an
  object that may carry a nested \<^verbatim>\<open>data\<close> object and may carry \<^verbatim>\<open>access_token\<close>
  itself.
\<close>

datatype token_payload = TokenPayload (payload_access_token: "string option")

datatype refresh_body =
    NullBody
  | Body (nested_data: "token_payload option") (top_access_token: "string option")

section \<open>The API service\<close>

text \<open>
  The mutable state of \<^verbatim>\<open>ApiService\<close> and of the browser around it. A waiter in
  \<^verbatim>\<open>failedQueue\<close> is the pair of settle functions of a promise whose continuation
  replays the request it captured; the model keeps that captured request. The last
  three fields record, in order, the effects that leave the client: every refresh
  token posted to the refresh endpoint, every request handed to \<^verbatim>\<open>this.api\<close>, and
  every value assigned to \<^verbatim>\<open>window.location.href\<close>.
\<close>

record client_state =
  isRefreshing :: bool
  failedQueue :: "request_config list"
  localStorage :: storage
  refresh_posts :: "string list"
  sent :: "request_config list"
  href_assignments :: "string list"

text \<open>
  What the promise returned by a handler does: it rejects, it adopts a replayed
  request, it stays pending as a waiter, or the handler is suspended at
  \<^verbatim>\<open>await axios.post\<close> holding the request that triggered the refresh.
\<close>

datatype outcome =
    Rejected js_error
  | Replayed request_config
  | Queued
  | AwaitingRefresh request_config string

text \<open>The request interceptor: attach the stored access token when it is truthy.\<close>

definition request_interceptor :: "storage \<Rightarrow> request_config \<Rightarrow> request_config" where
  "request_interceptor ls c =
     (let token = getItem ls ''access_token'' in
      if truthy token then c\<lparr>authorization := Some (''Bearer '' @ string_of_nullable token)\<rparr>
      else c)"

text \<open>
  \<^verbatim>\<open>this.api(config)\<close>: the request passes the request interceptor and is sent.
  Only promise continuations run between the call and the interceptor, and none of
  them writes the storage, so the interceptor reads the storage of the call.
\<close>

definition api :: "request_config \<Rightarrow> client_state \<Rightarrow> request_config \<times> client_state" where
  "api c st =
     (let c' = request_interceptor (localStorage st) c
      in (c', st\<lparr>sent := sent st @ [c']\<rparr>))"

definition logout :: "client_state \<Rightarrow> client_state" where
  "logout st =
     st\<lparr>localStorage :=
          removeItem_storage (removeItem_storage (localStorage st) ''access_token'')
            ''refresh_token''\<rparr>"

definition assign_href :: "string \<Rightarrow> client_state \<Rightarrow> client_state" where
  "assign_href target st = st\<lparr>href_assignments := href_assignments st @ [target]\<rparr>"

definition post_refresh :: "string \<Rightarrow> client_state \<Rightarrow> client_state" where
  "post_refresh refreshToken st = st\<lparr>refresh_posts := refresh_posts st @ [refreshToken]\<rparr>"

text \<open>
  \<^verbatim>\<open>processQueue\<close> settles every waiter, in queue order, with the same argument
  (\<open>None\<close> resolves, \<open>Some e\<close> rejects with \<open>e\<close>) and empties the queue. Settling
  schedules the waiter's continuation; the settled waiters are returned in order.
\<close>

definition processQueue ::
  "js_error option \<Rightarrow> client_state \<Rightarrow> (request_config \<times> js_error option) list \<times> client_state"
where
  "processQueue error st =
     (map (\<lambda>w. (w, error)) (failedQueue st), st\<lparr>failedQueue := []\<rparr>)"

definition is_auth_endpoint :: "request_config \<Rightarrow> bool" where
  "is_auth_endpoint c =
     (case url c of
        None \<Rightarrow> False
      | Some u \<Rightarrow> includes_str u ''/auth/sign-in'' \<or> includes_str u ''/auth/sign-up''
                 \<or> includes_str u ''/auth/refresh-token'')"

text \<open>
  The rejection handler of the response interceptor, from its entry to its first
  suspension or return. The handler runs without interruption up to that point.
\<close>

definition response_error :: "js_error \<Rightarrow> client_state \<Rightarrow> outcome \<times> client_state" where
  "response_error error st =
     (if response_status error = Some 401 then
        (case error_config error of
           None \<Rightarrow> (Rejected (TypeError ''Cannot read properties of undefined (reading _retry)''), st)
         | Some originalRequest \<Rightarrow>
             if \<not> retry originalRequest then
               if is_auth_endpoint originalRequest then (Rejected error, st)
               else if isRefreshing st then
                 (Queued, st\<lparr>failedQueue := failedQueue st @ [originalRequest]\<rparr>)
               else
                 let originalRequest = originalRequest\<lparr>retry := True\<rparr>;
                     st = st\<lparr>isRefreshing := True\<rparr>;
                     refreshToken = getItem (localStorage st) ''refresh_token''
                 in if truthy refreshToken then
                      (AwaitingRefresh originalRequest (string_of_nullable refreshToken),
                       post_refresh (string_of_nullable refreshToken) st)
                    else
                      (Rejected (AxiosError (Some originalRequest) (response error)),
                       assign_href ''/login'' (logout st))
             else (Rejected error, st))
      else (Rejected error, st))"

text \<open>
  \<^verbatim>\<open>const { access_token } = response.data.data || response.data\<close>: reading a
  property of null raises; an object is truthy, so a nested \<^verbatim>\<open>data\<close> object wins.
\<close>

fun read_access_token :: "refresh_body \<Rightarrow> js_error + string option" where
  "read_access_token NullBody = Inl (TypeError ''Cannot read properties of null (reading data)'')"
| "read_access_token (Body (Some p) t) = Inr (payload_access_token p)"
| "read_access_token (Body None t) = Inr t"

text \<open>
  The handler resumed after \<^verbatim>\<open>await axios.post\<close> with the settled refresh call:
  the rest of the \<^verbatim>\<open>try\<close> block, or the \<^verbatim>\<open>catch\<close> block, then \<^verbatim>\<open>finally\<close>. The
  replay is returned without being awaited, so its failure does not reach the
  \<^verbatim>\<open>catch\<close>.
\<close>

definition refresh_settled ::
  "request_config \<Rightarrow> js_error + refresh_body \<Rightarrow> client_state \<Rightarrow>
   outcome \<times> (request_config \<times> js_error option) list \<times> client_state"
where
  "refresh_settled originalRequest result st =
     (let (out, settled, st) =
        (case (case result of Inl e \<Rightarrow> Inl e | Inr body \<Rightarrow> read_access_token body) of
           Inr tok \<Rightarrow>
             let access_token = string_of_optional tok;
                 st = st\<lparr>localStorage := setItem (localStorage st) ''access_token'' access_token\<rparr>;
                 (settled, st) = processQueue None st;
                 originalRequest = originalRequest\<lparr>authorization := Some (''Bearer '' @ access_token)\<rparr>;
                 (replay, st) = api originalRequest st
             in (Replayed replay, settled, st)
         | Inl refreshError \<Rightarrow>
             let (settled, st) =
                   processQueue
                     (Some (if instanceof_Error refreshError then refreshError
                            else Error ''Token refresh failed'')) st;
                 st = logout st;
                 st = assign_href ''/login'' st
             in (Rejected refreshError, settled, st))
      in (out, settled, st\<lparr>isRefreshing := False\<rparr>))"

text \<open>
  The continuation of a settled waiter: resolved, it reads the stored access token,
  writes the header and replays; rejected, it rejects its caller with the same error.
\<close>

fun waiter_continuation ::
  "request_config \<times> js_error option \<Rightarrow> client_state \<Rightarrow> outcome \<times> client_state"
where
  "waiter_continuation (originalRequest, None) st =
     (let token = getItem (localStorage st) ''access_token'';
          originalRequest =
            originalRequest\<lparr>authorization := Some (''Bearer '' @ string_of_nullable token)\<rparr>;
          (replay, st) = api originalRequest st
      in (Replayed replay, st))"
| "waiter_continuation (originalRequest, Some err) st = (Rejected err, st)"

fun run_continuations ::
  "(request_config \<times> js_error option) list \<Rightarrow> client_state \<Rightarrow> outcome list \<times> client_state"
where
  "run_continuations [] st = ([], st)"
| "run_continuations (w # ws) st =
     (let (out, st) = waiter_continuation w st;
          (outs, st) = run_continuations ws st
      in (out # outs, st))"

text \<open>
  A settled refresh followed by the continuations it scheduled, which run before any
  other event: the outcome of the triggering caller, the outcomes of the waiters in
  queue order, and the state left behind.
\<close>

definition refresh_completed ::
  "request_config \<Rightarrow> js_error + refresh_body \<Rightarrow> client_state \<Rightarrow>
   outcome \<times> outcome list \<times> client_state"
where
  "refresh_completed originalRequest result st =
     (let (out, settled, st) = refresh_settled originalRequest result st;
          (outs, st) = run_continuations settled st
      in (out, outs, st))"

text \<open>A burst: failures handled one after the other before any refresh settles.\<close>

fun handle_burst :: "js_error list \<Rightarrow> client_state \<Rightarrow> outcome list \<times> client_state" where
  "handle_burst [] st = ([], st)"
| "handle_burst (e # es) st =
     (let (out, st) = response_error e st;
          (outs, st) = handle_burst es st
      in (out # outs, st))"

text \<open>
  A failure that enters the refresh protocol: status 401, a request not marked as
  retried, and a URL outside the authentication endpoints.
\<close>

fun triggers_refresh :: "js_error \<Rightarrow> bool" where
  "triggers_refresh (AxiosError (Some c) (Some r)) =
     (status r = 401 \<and> \<not> retry c \<and> \<not> is_auth_endpoint c)"
| "triggers_refresh e = False"

text \<open>Values used to run the definitions: two requests, a 401 failure, a signed-in client.\<close>

definition protected_request :: request_config where
  "protected_request =
     \<lparr>url = Some ''/v1/protected/me'', retry = False, authorization = Some ''Bearer old''\<rparr>"

definition sign_in_request :: request_config where
  "sign_in_request =
     \<lparr>url = Some ''/v1/public/auth/sign-in'', retry = False, authorization = None\<rparr>"

definition failure :: "int \<Rightarrow> request_config \<Rightarrow> js_error" where
  "failure code c = AxiosError (Some c) (Some \<lparr>status = code, response_data = Some (JObject [])\<rparr>)"

definition signed_in_state :: client_state where
  "signed_in_state =
     \<lparr>isRefreshing = False, failedQueue = [],
      localStorage = [''access_token'' \<mapsto> ''old'', ''refresh_token'' \<mapsto> ''r1''],
      refresh_posts = [], sent = [], href_assignments = []\<rparr>"

definition clients_request :: request_config where
  "clients_request =
     \<lparr>url = Some ''/v1/protected/clients?page=1'', retry = False,
      authorization = Some ''Bearer old''\<rparr>"

text \<open>A client with an access token and no refresh token.\<close>

definition tokenless_state :: client_state where
  "tokenless_state =
     \<lparr>isRefreshing = False, failedQueue = [],
      localStorage = [''access_token'' \<mapsto> ''old''],
      refresh_posts = [], sent = [], href_assignments = []\<rparr>"

text \<open>A client whose refresh is in flight, with two waiters.\<close>

definition waiting_state :: client_state where
  "waiting_state =
     \<lparr>isRefreshing = True, failedQueue = [clients_request, protected_request],
      localStorage = [''access_token'' \<mapsto> ''old'', ''refresh_token'' \<mapsto> ''r1''],
      refresh_posts = [''r1''], sent = [], href_assignments = []\<rparr>"

text \<open>
  Waiters are only enqueued while the flag is set, and the flag is only cleared
  after the queue has been emptied: outside a refresh the queue is empty.
\<close>

definition queue_invariant :: "client_state \<Rightarrow> bool" where
  "queue_invariant st = (isRefreshing st \<or> failedQueue st = [])"

text \<open>The refresh of \<open>waiting_state\<close> settling: rejected, and answered with a token.\<close>

definition refresh_request :: request_config where
  "refresh_request = protected_request\<lparr>retry := True\<rparr>"

definition failed_refresh :: "outcome \<times> outcome list \<times> client_state" where
  "failed_refresh = refresh_completed refresh_request (Inl (Error ''Network Error'')) waiting_state"

definition token_body :: refresh_body where
  "token_body = Body (Some (TokenPayload (Some ''new''))) None"

definition successful_refresh :: "outcome \<times> outcome list \<times> client_state" where
  "successful_refresh = refresh_completed refresh_request (Inr token_body) waiting_state"

section \<open>Signing in\<close>

text \<open>
  \<^verbatim>\<open>AuthTokens\<close> as the sign-in endpoint returns them, and the state
  \<^verbatim>\<open>AuthProvider.login\<close> writes: the stored tokens and the \<^verbatim>\<open>user\<close> of the context.
\<close>

record auth_tokens =
  access_token :: string
  refresh_token :: string

record 'u auth_state =
  auth_storage :: storage
  user :: "'u option"

text \<open>
  The \<^verbatim>\<open>catch\<close> block of \<^verbatim>\<open>login\<close>: the value it throws for the value it caught.
  For an object with a \<^verbatim>\<open>response\<close> of status 403 it reads
  \<^verbatim>\<open>errorData.data?.can_restore\<close> with \<^verbatim>\<open>errorData = response.data\<close>: the read of
  \<^verbatim>\<open>errorData.data\<close> is not guarded and raises when the body is null or undefined;
  a truthy flag throws the deactivation error; everything else is thrown again as
  it is.
\<close>

fun login_catch :: "js_error \<Rightarrow> js_error" where
  "login_catch (AxiosError c (Some r)) =
     (if status r = 403 then
        (let errorData = response_data r in
         if nullish errorData then
           TypeError (''Cannot read properties of ''
                      @ (if errorData = None then ''undefined'' else ''null'')
                      @ '' (reading data)'')
         else if js_truthy (optional_property (get_property (the errorData) ''data'')
                              ''can_restore'')
         then Error ''ACCOUNT_DEACTIVATED''
         else AxiosError c (Some r))
      else AxiosError c (Some r))"
| "login_catch error = error"

text \<open>
  \<^verbatim>\<open>login\<close>, given how its two awaited calls settle: \<^verbatim>\<open>apiService.login\<close> and,
  when that one succeeded, \<^verbatim>\<open>apiService.getCurrentUser\<close>.
\<close>

definition login ::
  "js_error + auth_tokens \<Rightarrow> js_error + 'u \<Rightarrow> 'u auth_state \<Rightarrow> (js_error + unit) \<times> 'u auth_state"
where
  "login signIn currentUser st =
     (case signIn of
        Inl error \<Rightarrow> (Inl (login_catch error), st)
      | Inr tokens \<Rightarrow>
          let st = st\<lparr>auth_storage := setItem (auth_storage st) ''access_token'' (access_token tokens)\<rparr>;
              st = st\<lparr>auth_storage := setItem (auth_storage st) ''refresh_token'' (refresh_token tokens)\<rparr>
          in (case currentUser of
                Inl error \<Rightarrow> (Inl (login_catch error), st)
              | Inr userData \<Rightarrow> (Inr (), st\<lparr>user := Some userData\<rparr>)))"

text \<open>
  The deactivated-account condition in the words of the specification: status 403
  and a response body whose \<^verbatim>\<open>data.can_restore\<close> flag is true.
\<close>

fun deactivated_account :: "js_error \<Rightarrow> bool" where
  "deactivated_account (AxiosError c (Some r)) =
     (status r = 403
      \<and> optional_property (optional_property (response_data r) ''data'') ''can_restore''
          = Some (JBool True))"
| "deactivated_account error = False"

text \<open>
  Two conditions on a failure, every read guarded: status 403 with a body whose
  \<^verbatim>\<open>data.can_restore\<close> is truthy, and status 403 with a body that is null or
  undefined.
\<close>

fun restorable_403 :: "js_error \<Rightarrow> bool" where
  "restorable_403 (AxiosError c (Some r)) =
     (status r = 403
      \<and> js_truthy (optional_property (optional_property (response_data r) ''data'')
                     ''can_restore''))"
| "restorable_403 error = False"

fun nullish_body_403 :: "js_error \<Rightarrow> bool" where
  "nullish_body_403 (AxiosError c (Some r)) = (status r = 403 \<and> nullish (response_data r))"
| "nullish_body_403 error = False"

section \<open>The invoice form\<close>

text \<open>
  An invoice item. Its numbers are JavaScript numbers; the model leaves their type
  \<open>'n\<close> and its multiplication open, so that what is proved does not depend on
  how products are rounded.
\<close>

record 'n invoice_item =
  id_item :: "'n option"
  description :: string
  quantity :: 'n
  unit_price :: 'n
  total_item :: 'n

text \<open>A key of \<^verbatim>\<open>InvoiceItem\<close> together with a value of the type of that key.\<close>

datatype 'n item_change =
    Set_id 'n
  | Set_description string
  | Set_quantity 'n
  | Set_unit_price 'n
  | Set_total 'n

text \<open>\<^verbatim>\<open>{ ...item, [field]: value }\<close>\<close>

fun set_item_field :: "'n item_change \<Rightarrow> 'n invoice_item \<Rightarrow> 'n invoice_item" where
  "set_item_field (Set_id v) item = item\<lparr>id_item := Some v\<rparr>"
| "set_item_field (Set_description v) item = item\<lparr>description := v\<rparr>"
| "set_item_field (Set_quantity v) item = item\<lparr>quantity := v\<rparr>"
| "set_item_field (Set_unit_price v) item = item\<lparr>unit_price := v\<rparr>"
| "set_item_field (Set_total v) item = item\<lparr>total_item := v\<rparr>"

text \<open>\<^verbatim>\<open>field === "quantity" || field === "unit_price"\<close>\<close>

fun changes_amount :: "'n item_change \<Rightarrow> bool" where
  "changes_amount (Set_quantity v) = True"
| "changes_amount (Set_unit_price v) = True"
| "changes_amount c = False"

text \<open>
  The keys of \<^verbatim>\<open>InvoiceFormData\<close> other than \<^verbatim>\<open>items\<close>, and their values, which
  are strings or numbers. A key that is not set is absent from \<open>scalars\<close>.
\<close>

datatype form_field =
    Invoice_number | Issue_date | Due_date
  | Client_id | Client_name | Client_email | Client_address | Client_phone
  | Tax_rate | Delivery_fee | Notes | Status
  | Sender_name | Sender_email | Sender_phone | Sender_address
  | Sender_bank_name | Sender_bank_account_name | Sender_bank_account_number

datatype 'n form_value = Str string | Num 'n

record 'n invoice_form_data =
  scalars :: "form_field \<rightharpoonup> 'n form_value"
  items :: "'n invoice_item list"

record 'n client =
  id_client :: 'n
  name :: string
  email :: "string option"
  address :: "string option"
  phone :: "string option"

text \<open>\<^verbatim>\<open>value || ""\<close> on an optional string.\<close>

fun or_empty :: "string option \<Rightarrow> string" where
  "or_empty None = []"
| "or_empty (Some s) = s"

text \<open>
  The handlers of \<^verbatim>\<open>InvoiceForm\<close>. Each one computes the form data it hands to
  \<^verbatim>\<open>onChange\<close>, which the page stores with \<^verbatim>\<open>setInvoiceData\<close>; a handler that
  does not call \<^verbatim>\<open>onChange\<close> leaves the data as it is.

  \<^verbatim>\<open>handleClientSelect\<close> takes the identifier parsed from the selected option:
  \<open>None\<close> when the option is null or empty. The component also keeps the selected
  identifier in a state of its own, which is not part of the form data.
\<close>

definition handleClientSelect ::
  "'n client list \<Rightarrow> 'n option \<Rightarrow> 'n invoice_form_data \<Rightarrow> 'n invoice_form_data"
where
  "handleClientSelect clients clientId data =
     (case clientId of
        None \<Rightarrow>
          data\<lparr>scalars := (scalars data)
                 (Client_id := None, Client_name \<mapsto> Str [], Client_email \<mapsto> Str [],
                  Client_address \<mapsto> Str [], Client_phone \<mapsto> Str [])\<rparr>
      | Some cid \<Rightarrow>
          (case find (\<lambda>c. id_client c = cid) clients of
             Some client \<Rightarrow>
               data\<lparr>scalars := (scalars data)
                      (Client_id \<mapsto> Num (id_client client), Client_name \<mapsto> Str (name client),
                       Client_email \<mapsto> Str (or_empty (email client)),
                       Client_address \<mapsto> Str (or_empty (address client)),
                       Client_phone \<mapsto> Str (or_empty (phone client)))\<rparr>
           | None \<Rightarrow> data))"

definition handleInputChange ::
  "form_field \<Rightarrow> 'n form_value \<Rightarrow> 'n invoice_form_data \<Rightarrow> 'n invoice_form_data"
where
  "handleInputChange field v data = data\<lparr>scalars := (scalars data)(field \<mapsto> v)\<rparr>"

text \<open>
  \<^verbatim>\<open>handleItemChange\<close> is called from the rows rendered for \<^verbatim>\<open>data.items\<close>, so
  its index is in range. Past the end JavaScript would store an object with the
  single key \<^verbatim>\<open>field\<close>, which is not an \<^verbatim>\<open>InvoiceItem\<close>; the model answers
  \<open>None\<close> there.
\<close>

definition handleItemChange ::
  "nat \<Rightarrow> 'n::times item_change \<Rightarrow> 'n invoice_form_data \<Rightarrow> 'n invoice_form_data option"
where
  "handleItemChange index change data =
     (if index < length (items data) then
        let newItem = set_item_field change (items data ! index);
            newItem = (if changes_amount change
                       then newItem\<lparr>total_item := quantity newItem * unit_price newItem\<rparr>
                       else newItem)
        in Some (data\<lparr>items := (items data)[index := newItem]\<rparr>)
      else None)"

definition new_item :: "'n::{zero,one} invoice_item" where
  "new_item = \<lparr>id_item = None, description = [], quantity = 1, unit_price = 0, total_item = 0\<rparr>"

definition addItem :: "'n::{zero,one} invoice_form_data \<Rightarrow> 'n invoice_form_data" where
  "addItem data = data\<lparr>items := items data @ [new_item]\<rparr>"

definition removeItem :: "nat \<Rightarrow> 'n invoice_form_data \<Rightarrow> 'n invoice_form_data" where
  "removeItem index data =
     (if length (items data) > 1 then
        data\<lparr>items :=
               map fst (filter (\<lambda>(item, i). i \<noteq> index)
                 (zip (items data) [0 ..< length (items data)]))\<rparr>
      else data)"

text \<open>
  The initial \<^verbatim>\<open>invoiceData\<close> of \<^verbatim>\<open>CreateInvoicePage\<close>; the invoice number and
  the two dates come from the clock.
\<close>

definition initial_invoiceData ::
  "string \<Rightarrow> string \<Rightarrow> string \<Rightarrow> 'n::{zero,one} invoice_form_data"
where
  "initial_invoiceData invoice_number issue_date due_date =
     \<lparr>scalars =
        [Invoice_number \<mapsto> Str invoice_number, Issue_date \<mapsto> Str issue_date,
         Due_date \<mapsto> Str due_date, Client_name \<mapsto> Str [], Client_email \<mapsto> Str [],
         Client_address \<mapsto> Str [], Client_phone \<mapsto> Str [], Tax_rate \<mapsto> Num 0,
         Delivery_fee \<mapsto> Num 0, Notes \<mapsto> Str [], Status \<mapsto> Str ''DRAFT''],
      items = [new_item]\<rparr>"

text \<open>What a user can do to the form, and a session of such operations.\<close>

datatype 'n form_operation =
    AddItem
  | RemoveItem nat
  | ItemChange nat "'n item_change"
  | InputChange form_field "'n form_value"
  | ClientSelect "'n option"

fun form_step ::
  "'n client list \<Rightarrow> 'n::{times,zero,one} form_operation \<Rightarrow> 'n invoice_form_data \<Rightarrow>
   'n invoice_form_data option"
where
  "form_step clients AddItem data = Some (addItem data)"
| "form_step clients (RemoveItem index) data = Some (removeItem index data)"
| "form_step clients (ItemChange index change) data = handleItemChange index change data"
| "form_step clients (InputChange field v) data = Some (handleInputChange field v data)"
| "form_step clients (ClientSelect clientId) data = Some (handleClientSelect clients clientId data)"

fun form_run ::
  "'n client list \<Rightarrow> 'n::{times,zero,one} form_operation list \<Rightarrow> 'n invoice_form_data \<Rightarrow>
   'n invoice_form_data option"
where
  "form_run clients [] data = Some data"
| "form_run clients (op # ops) data =
     (case form_step clients op data of
        None \<Rightarrow> None
      | Some data' \<Rightarrow> form_run clients ops data')"

text \<open>Values used to run sign-in and the form.\<close>

definition deactivated_response :: js_error where
  "deactivated_response =
     AxiosError (Some sign_in_request)
       (Some \<lparr>status = 403,
              response_data =
                Some (JObject [(''data'', JObject [(''can_restore'', JBool True)])])\<rparr>)"

text \<open>A 403 whose body is the JSON text \<open>null\<close>, and one whose flag is the number 1.\<close>

definition null_body_403 :: js_error where
  "null_body_403 = AxiosError (Some sign_in_request) (Some \<lparr>status = 403, response_data = Some JNull\<rparr>)"

definition numeric_flag_403 :: js_error where
  "numeric_flag_403 =
     AxiosError (Some sign_in_request)
       (Some \<lparr>status = 403,
              response_data =
                Some (JObject [(''data'', JObject [(''can_restore'', JNumber 1)])])\<rparr>)"

definition signed_out :: "unit auth_state" where
  "signed_out = \<lparr>auth_storage = Map.empty, user = None\<rparr>"

definition example_invoiceData :: "int invoice_form_data" where
  "example_invoiceData = initial_invoiceData ''INV-1'' ''2025-01-01'' ''2025-01-31''"

section \<open>Properties of the response interceptor\<close>

subsection \<open>Auxiliary facts\<close>

lemma queued_while_refreshing:
  "triggers_refresh e \<Longrightarrow> isRefreshing st \<Longrightarrow>
   response_error e st = (Queued, st\<lparr>failedQueue := failedQueue st @ [the (error_config e)]\<rparr>)"
  by (cases e rule: triggers_refresh.cases) (simp_all add: response_error_def)

lemma burst_while_refreshing:
  "\<forall>e \<in> set es. triggers_refresh e \<Longrightarrow> isRefreshing st \<Longrightarrow>
   handle_burst es st =
     (replicate (length es) Queued,
      st\<lparr>failedQueue := failedQueue st @ map (\<lambda>e. the (error_config e)) es\<rparr>)"
proof (induction es arbitrary: st)
  case Nil
  then show ?case by simp
next
  case (Cons e es)
  then have e: "triggers_refresh e" and es: "\<forall>e \<in> set es. triggers_refresh e" by simp_all
  let ?st1 = "st\<lparr>failedQueue := failedQueue st @ [the (error_config e)]\<rparr>"
  have r: "isRefreshing ?st1" using Cons.prems(2) by simp
  show ?case
    using queued_while_refreshing [OF e Cons.prems(2)] Cons.IH [OF es r]
    by simp
qed

lemma first_failure_posts_refresh:
  assumes "triggers_refresh e" "\<not> isRefreshing st"
      and "getItem (localStorage st) ''refresh_token'' = Some rt" "rt \<noteq> []"
  shows "response_error e st =
     (AwaitingRefresh ((the (error_config e))\<lparr>retry := True\<rparr>) rt,
      post_refresh rt (st\<lparr>isRefreshing := True\<rparr>))"
  using assms
  by (cases e rule: triggers_refresh.cases) (simp_all add: response_error_def Let_def)

lemma no_post_while_refreshing:
  "isRefreshing st \<Longrightarrow>
   isRefreshing (snd (response_error x st))
   \<and> refresh_posts (snd (response_error x st)) = refresh_posts st"
  by (simp add: response_error_def split: option.splits)

lemma burst_posts_nothing_while_refreshing:
  "isRefreshing st \<Longrightarrow>
   isRefreshing (snd (handle_burst fs st))
   \<and> refresh_posts (snd (handle_burst fs st)) = refresh_posts st"
proof (induction fs arbitrary: st)
  case Nil
  then show ?case by simp
next
  case (Cons x fs)
  from no_post_while_refreshing [OF Cons.prems, of x]
  have r: "isRefreshing (snd (response_error x st))"
    and p: "refresh_posts (snd (response_error x st)) = refresh_posts st"
    by simp_all
  from Cons.IH [OF r] p show ?case
    by (simp add: case_prod_beta)
qed

lemma no_token_rejects:
  assumes "triggers_refresh error" "\<not> isRefreshing st"
      and "\<not> truthy (getItem (localStorage st) ''refresh_token'')"
  shows "response_error error st =
     (Rejected (AxiosError (Some ((the (error_config error))\<lparr>retry := True\<rparr>)) (response error)),
      assign_href ''/login'' (logout (st\<lparr>isRefreshing := True\<rparr>)))"
  using assms
  by (cases error rule: triggers_refresh.cases) (simp_all add: response_error_def Let_def)

lemma run_rejected:
  "run_continuations (map (\<lambda>w. (w, Some err)) ws) st = (map (\<lambda>w. Rejected err) ws, st)"
  by (induction ws) simp_all

lemma interceptor_fresh_token:
  "getItem ls ''access_token'' = Some t \<Longrightarrow>
   request_interceptor ls (c\<lparr>authorization := Some (''Bearer '' @ t)\<rparr>)
     = c\<lparr>authorization := Some (''Bearer '' @ t)\<rparr>"
  by (simp add: request_interceptor_def)

lemma run_resolved:
  "getItem (localStorage st) ''access_token'' = Some t \<Longrightarrow>
   run_continuations (map (\<lambda>w. (w, None)) ws) st =
     (map (\<lambda>w. Replayed (w\<lparr>authorization := Some (''Bearer '' @ t)\<rparr>)) ws,
      st\<lparr>sent := sent st @ map (\<lambda>w. w\<lparr>authorization := Some (''Bearer '' @ t)\<rparr>) ws\<rparr>)"
proof (induction ws arbitrary: st)
  case Nil
  then show ?case by simp
next
  case (Cons w ws)
  let ?w = "w\<lparr>authorization := Some (''Bearer '' @ t)\<rparr>"
  let ?st1 = "st\<lparr>sent := sent st @ [?w]\<rparr>"
  have step: "waiter_continuation (w, None) st = (Replayed ?w, ?st1)"
    using Cons.prems interceptor_fresh_token [OF Cons.prems, of w]
    by (simp add: api_def Let_def)
  have "getItem (localStorage ?st1) ''access_token'' = Some t"
    using Cons.prems by simp
  from Cons.IH [OF this] step show ?case by simp
qed

text \<open>The two ways a refresh call settles, computed once for the theorems below.\<close>

lemma refresh_failed_completed:
  "refresh_completed originalRequest (Inl refreshError) st =
     (Rejected refreshError,
      map (\<lambda>w. Rejected (if instanceof_Error refreshError then refreshError
                           else Error ''Token refresh failed'')) (failedQueue st),
      (assign_href ''/login'' (logout (st\<lparr>failedQueue := []\<rparr>)))\<lparr>isRefreshing := False\<rparr>)"
  by (simp add: refresh_completed_def refresh_settled_def processQueue_def run_rejected)

lemma refresh_succeeded_completed:
  assumes "read_access_token body = Inr tok"
  shows "refresh_completed originalRequest (Inr body) st =
     (Replayed (originalRequest\<lparr>authorization := Some (''Bearer '' @ string_of_optional tok)\<rparr>),
      map (\<lambda>w. Replayed (w\<lparr>authorization := Some (''Bearer '' @ string_of_optional tok)\<rparr>))
        (failedQueue st),
      st\<lparr>localStorage := setItem (localStorage st) ''access_token'' (string_of_optional tok),
         failedQueue := [],
         sent := sent st
           @ [originalRequest\<lparr>authorization := Some (''Bearer '' @ string_of_optional tok)\<rparr>]
           @ map (\<lambda>w. w\<lparr>authorization := Some (''Bearer '' @ string_of_optional tok)\<rparr>)
               (failedQueue st),
         isRefreshing := False\<rparr>)"
proof -
  let ?t = "string_of_optional tok"
  let ?o = "originalRequest\<lparr>authorization := Some (''Bearer '' @ ?t)\<rparr>"
  let ?ls = "setItem (localStorage st) ''access_token'' ?t"
  let ?st1 = "st\<lparr>localStorage := ?ls, failedQueue := [], sent := sent st @ [?o],
               isRefreshing := False\<rparr>"
  have g: "getItem ?ls ''access_token'' = Some ?t"
    by (simp add: getItem_def setItem_def)
  have settled: "refresh_settled originalRequest (Inr body) st =
      (Replayed ?o, map (\<lambda>w. (w, None)) (failedQueue st), ?st1)"
    using assms interceptor_fresh_token [OF g, of originalRequest]
    by (simp add: refresh_settled_def processQueue_def api_def Let_def)
  have "getItem (localStorage ?st1) ''access_token'' = Some ?t"
    using g by simp
  from run_resolved [OF this, of "failedQueue st"] settled show ?thesis
    by (simp add: refresh_completed_def)
qed

text \<open>The queue invariant holds initially and every step of the client keeps it.\<close>

lemma queue_invariant_initially: "queue_invariant signed_in_state"
  by (simp add: queue_invariant_def signed_in_state_def)

lemma response_error_invariant:
  "queue_invariant st \<Longrightarrow> queue_invariant (snd (response_error error st))"
  by (auto simp add: queue_invariant_def response_error_def Let_def post_refresh_def
      assign_href_def logout_def split: option.splits)

lemma refresh_settled_flag_and_queue:
  "isRefreshing (snd (snd (refresh_settled originalRequest result st))) = False
   \<and> failedQueue (snd (snd (refresh_settled originalRequest result st))) = []
   \<and> map fst (fst (snd (refresh_settled originalRequest result st))) = failedQueue st"
  by (auto simp add: refresh_settled_def processQueue_def api_def Let_def assign_href_def
      logout_def comp_def split: sum.splits prod.splits)

lemma run_continuations_flag_and_queue:
  "isRefreshing (snd (run_continuations ws st)) = isRefreshing st
   \<and> failedQueue (snd (run_continuations ws st)) = failedQueue st
   \<and> localStorage (snd (run_continuations ws st)) = localStorage st
   \<and> length (fst (run_continuations ws st)) = length ws"
proof (induction ws arbitrary: st)
  case Nil
  then show ?case by simp
next
  case (Cons w ws)
  obtain c r where w: "w = (c, r)" by (cases w)
  show ?case
  proof (cases r)
    case None
    with w show ?thesis by (simp add: api_def Let_def case_prod_beta Cons.IH)
  next
    case (Some e)
    with w show ?thesis by (simp add: case_prod_beta Cons.IH)
  qed
qed

text \<open>
  Whenever a refresh call settles, with any result, the flag is cleared, the queue is
  emptied and every waiter of the queue gets exactly one outcome.
\<close>

lemma refresh_completed_flag_and_queue:
  "isRefreshing (snd (snd (refresh_completed originalRequest result st))) = False
   \<and> failedQueue (snd (snd (refresh_completed originalRequest result st))) = []
   \<and> length (fst (snd (refresh_completed originalRequest result st))) = length (failedQueue st)"
proof -
  obtain out settled st1 where s: "refresh_settled originalRequest result st = (out, settled, st1)"
    by (cases "refresh_settled originalRequest result st") auto
  from refresh_settled_flag_and_queue [of originalRequest result st] s
  have f: "isRefreshing st1 = False" "failedQueue st1 = []" "map fst settled = failedQueue st"
    by simp_all
  from f(3) have l: "length settled = length (failedQueue st)"
    by (metis length_map)
  show ?thesis
    using s f l run_continuations_flag_and_queue [of settled st1]
    by (simp add: refresh_completed_def split: prod.splits)
qed

lemma refresh_completed_invariant:
  "queue_invariant (snd (snd (refresh_completed originalRequest result st)))"
  using refresh_completed_flag_and_queue [of originalRequest result st]
  by (simp add: queue_invariant_def)

subsection \<open>Single-flight refresh\<close>

text \<open>
  C1, amended. A burst of one or more failures that enter the refresh protocol,
  handled before the refresh settles by a client that is not refreshing and holds a
  non-empty refresh token, posts exactly one refresh call. The first handler sets \<open>isRefreshing\<close> and only
  then posts the call, in one uninterrupted run; every later failure of the burst
  becomes a waiter at the end of \<open>failedQueue\<close> and posts nothing. Whatever
  failures \<open>fs\<close> follow the first one, of any status and for any request, the
  refresh call stays the only one.
\<close>

theorem single_flight_refresh:
  assumes "\<not> isRefreshing st"
      and "getItem (localStorage st) ''refresh_token'' = Some rt" and "rt \<noteq> []"
      and "\<forall>x \<in> set (e # es). triggers_refresh x"
  shows "response_error e st =
           (AwaitingRefresh ((the (error_config e))\<lparr>retry := True\<rparr>) rt,
            post_refresh rt (st\<lparr>isRefreshing := True\<rparr>))
         \<and> fst (handle_burst (e # es) st) =
           AwaitingRefresh ((the (error_config e))\<lparr>retry := True\<rparr>) rt
             # replicate (length es) Queued
         \<and> refresh_posts (snd (handle_burst (e # es) st)) = refresh_posts st @ [rt]
         \<and> isRefreshing (snd (handle_burst (e # es) st))
         \<and> failedQueue (snd (handle_burst (e # es) st)) =
             failedQueue st @ map (\<lambda>x. the (error_config x)) es
         \<and> refresh_posts (snd (handle_burst (e # fs) st)) = refresh_posts st @ [rt]"
proof -
  from assms(4) have e: "triggers_refresh e" and es: "\<forall>e \<in> set es. triggers_refresh e"
    by simp_all
  let ?st1 = "post_refresh rt (st\<lparr>isRefreshing := True\<rparr>)"
  have first: "response_error e st =
      (AwaitingRefresh ((the (error_config e))\<lparr>retry := True\<rparr>) rt, ?st1)"
    by (rule first_failure_posts_refresh [OF e assms(1) assms(2) assms(3)])
  have r: "isRefreshing ?st1" by (simp add: post_refresh_def)
  have rest: "handle_burst es ?st1 =
     (replicate (length es) Queued,
      ?st1\<lparr>failedQueue := failedQueue ?st1 @ map (\<lambda>e. the (error_config e)) es\<rparr>)"
    by (rule burst_while_refreshing [OF es r])
  have any: "refresh_posts (snd (handle_burst fs ?st1)) = refresh_posts ?st1"
    using burst_posts_nothing_while_refreshing [OF r, of fs] by simp
  show ?thesis using first rest any by (simp add: post_refresh_def case_prod_beta)
qed

theorem single_flight_refresh_witness:
  "fst (handle_burst [failure 401 protected_request, failure 401 clients_request,
          failure 401 protected_request] signed_in_state)
     = [AwaitingRefresh (protected_request\<lparr>retry := True\<rparr>) ''r1'', Queued, Queued]
   \<and> refresh_posts (snd (handle_burst [failure 401 protected_request,
          failure 401 clients_request, failure 401 protected_request] signed_in_state))
     = [''r1'']
   \<and> isRefreshing (snd (handle_burst [failure 401 protected_request,
          failure 401 clients_request, failure 401 protected_request] signed_in_state))
   \<and> failedQueue (snd (handle_burst [failure 401 protected_request,
          failure 401 clients_request, failure 401 protected_request] signed_in_state))
     = [clients_request, protected_request]
   \<and> refresh_posts (snd (handle_burst [failure 401 protected_request,
          failure 500 clients_request, failure 401 sign_in_request] signed_in_state))
     = [''r1'']"
proof -
  have h1: "\<not> isRefreshing signed_in_state"
    by (simp add: signed_in_state_def)
  have h2: "getItem (localStorage signed_in_state) ''refresh_token'' = Some ''r1''"
    by (simp add: signed_in_state_def getItem_def)
  have h3: "''r1'' \<noteq> []" by simp
  have h4: "\<forall>e \<in> set [failure 401 protected_request, failure 401 clients_request,
          failure 401 protected_request]. triggers_refresh e"
    by (simp add: failure_def protected_request_def clients_request_def is_auth_endpoint_def)
  have c: "the (error_config (failure 401 protected_request)) = protected_request"
    "the (error_config (failure 401 clients_request)) = clients_request"
    by (simp_all add: failure_def)
  have s: "refresh_posts signed_in_state = []" "failedQueue signed_in_state = []"
    by (simp_all add: signed_in_state_def)
  from single_flight_refresh [OF h1 h2 h3 h4,
      of "[failure 500 clients_request, failure 401 sign_in_request]"]
  show ?thesis
    by (simp add: c s del: handle_burst.simps)
qed


text \<open>
  C1 as the claim words it, for every burst, fails for a client that holds no refresh
  token: the first handler finds no token and posts no refresh call, and the burst
  ends with no call posted at all.
\<close>

theorem single_flight_refresh_counterexample:
  "triggers_refresh (failure 401 protected_request)
   \<and> triggers_refresh (failure 401 clients_request)
   \<and> \<not> isRefreshing tokenless_state
   \<and> refresh_posts tokenless_state = []
   \<and> refresh_posts (snd (handle_burst [failure 401 protected_request] tokenless_state)) = []
   \<and> refresh_posts (snd (handle_burst [failure 401 protected_request,
          failure 401 clients_request] tokenless_state)) = []"
  by (simp add: response_error_def failure_def protected_request_def clients_request_def
      tokenless_state_def is_auth_endpoint_def getItem_def logout_def assign_href_def
      removeItem_storage_def)

subsection \<open>Failure of the refresh\<close>

text \<open>
  C2. When the refresh call is rejected, both stored tokens are removed, every waiter
  of \<open>failedQueue\<close> is rejected with the failure (wrapped in an \<open>Error\<close> when the
  thrown value is not one), \<open>/login\<close> is assigned to the location exactly once and
  the triggering caller is rejected with the failure. When no truthy refresh token
  is stored, the handler that starts the refresh removes both tokens, assigns
  \<open>/login\<close> exactly once and rejects its caller with the original error; the queue
  is empty at that point, because the client was not refreshing. No further refresh
  call is posted on either path.
\<close>

theorem refresh_failure_semantics:
  "(let (out, outs, st') = refresh_completed originalRequest (Inl refreshError) st in
      out = Rejected refreshError
      \<and> outs = map (\<lambda>w. Rejected (if instanceof_Error refreshError then refreshError
                                     else Error ''Token refresh failed'')) (failedQueue st)
      \<and> getItem (localStorage st') ''access_token'' = None
      \<and> getItem (localStorage st') ''refresh_token'' = None
      \<and> failedQueue st' = []
      \<and> href_assignments st' = href_assignments st @ [''/login'']
      \<and> refresh_posts st' = refresh_posts st)
   \<and> (triggers_refresh error \<and> \<not> isRefreshing st \<and> queue_invariant st
        \<and> \<not> truthy (getItem (localStorage st) ''refresh_token'') \<longrightarrow>
      (let (out, st') = response_error error st in
         out = Rejected (AxiosError (Some ((the (error_config error))\<lparr>retry := True\<rparr>))
                  (response error))
         \<and> getItem (localStorage st') ''access_token'' = None
         \<and> getItem (localStorage st') ''refresh_token'' = None
         \<and> failedQueue st = [] \<and> failedQueue st' = []
         \<and> href_assignments st' = href_assignments st @ [''/login'']
         \<and> refresh_posts st' = refresh_posts st))"
proof (intro conjI impI)
  show "let (out, outs, st') = refresh_completed originalRequest (Inl refreshError) st in
      out = Rejected refreshError
      \<and> outs = map (\<lambda>w. Rejected (if instanceof_Error refreshError then refreshError
                                     else Error ''Token refresh failed'')) (failedQueue st)
      \<and> getItem (localStorage st') ''access_token'' = None
      \<and> getItem (localStorage st') ''refresh_token'' = None
      \<and> failedQueue st' = []
      \<and> href_assignments st' = href_assignments st @ [''/login'']
      \<and> refresh_posts st' = refresh_posts st"
    by (simp add: refresh_failed_completed assign_href_def logout_def getItem_def
        removeItem_storage_def)
next
  assume a: "triggers_refresh error \<and> \<not> isRefreshing st \<and> queue_invariant st
        \<and> \<not> truthy (getItem (localStorage st) ''refresh_token'')"
  then have q: "failedQueue st = []"
    by (auto simp add: queue_invariant_def)
  from a have "response_error error st =
     (Rejected (AxiosError (Some ((the (error_config error))\<lparr>retry := True\<rparr>)) (response error)),
      assign_href ''/login'' (logout (st\<lparr>isRefreshing := True\<rparr>)))"
    using no_token_rejects by blast
  with q show "let (out, st') = response_error error st in
         out = Rejected (AxiosError (Some ((the (error_config error))\<lparr>retry := True\<rparr>))
                  (response error))
         \<and> getItem (localStorage st') ''access_token'' = None
         \<and> getItem (localStorage st') ''refresh_token'' = None
         \<and> failedQueue st = [] \<and> failedQueue st' = []
         \<and> href_assignments st' = href_assignments st @ [''/login'']
         \<and> refresh_posts st' = refresh_posts st"
    by (simp add: assign_href_def logout_def getItem_def removeItem_storage_def)
qed

theorem refresh_failure_semantics_witness:
  "fst failed_refresh = Rejected (Error ''Network Error'')
   \<and> fst (snd failed_refresh)
       = [Rejected (Error ''Network Error''), Rejected (Error ''Network Error'')]
   \<and> getItem (localStorage (snd (snd failed_refresh))) ''access_token'' = None
   \<and> getItem (localStorage (snd (snd failed_refresh))) ''refresh_token'' = None
   \<and> failedQueue (snd (snd failed_refresh)) = []
   \<and> href_assignments (snd (snd failed_refresh)) = [''/login'']
   \<and> refresh_posts (snd (snd failed_refresh)) = [''r1'']
   \<and> triggers_refresh (failure 401 protected_request)
   \<and> \<not> isRefreshing tokenless_state
   \<and> queue_invariant tokenless_state
   \<and> \<not> truthy (getItem (localStorage tokenless_state) ''refresh_token'')
   \<and> fst (response_error (failure 401 protected_request) tokenless_state)
       = Rejected (failure 401 refresh_request)
   \<and> getItem (localStorage (snd (response_error (failure 401 protected_request)
         tokenless_state))) ''access_token'' = None
   \<and> href_assignments (snd (response_error (failure 401 protected_request) tokenless_state))
       = [''/login'']
   \<and> refresh_posts (snd (response_error (failure 401 protected_request) tokenless_state)) = []"
proof -
  have h: "triggers_refresh (failure 401 protected_request)"
    "\<not> isRefreshing tokenless_state" "queue_invariant tokenless_state"
    "\<not> truthy (getItem (localStorage tokenless_state) ''refresh_token'')"
    by (simp_all add: failure_def protected_request_def is_auth_endpoint_def
        tokenless_state_def queue_invariant_def getItem_def)
  have v: "failedQueue waiting_state = [clients_request, protected_request]"
    "href_assignments waiting_state = []" "refresh_posts waiting_state = [''r1'']"
    "href_assignments tokenless_state = []" "refresh_posts tokenless_state = []"
    "the (error_config (failure 401 protected_request)) = protected_request"
    "response (failure 401 protected_request)
       = Some \<lparr>status = 401, response_data = Some (JObject [])\<rparr>"
    by (simp_all add: waiting_state_def tokenless_state_def failure_def)
  from refresh_failure_semantics [where originalRequest = refresh_request
      and refreshError = "Error ''Network Error''" and st = waiting_state] h
    refresh_failure_semantics [where error = "failure 401 protected_request"
      and st = tokenless_state]
  show ?thesis
    by (simp add: failed_refresh_def case_prod_beta v refresh_request_def failure_def)
qed

subsection \<open>The flag without a refresh token\<close>

text \<open>
  C3. The claim fails where no refresh token is stored: the handler sets
  \<open>isRefreshing\<close>, finds no token, and returns without clearing the flag. The next
  failure is then enqueued, no refresh call is posted, and nothing is left to release
  the waiter. (Where a refresh call was posted, \<open>refresh_completed_flag_and_queue\<close>
  shows the flag cleared and the queue drained once.)
\<close>

theorem refresh_flag_stuck_without_token:
  "(let (out, st') = response_error (failure 401 protected_request) tokenless_state;
        (out2, st'') = response_error (failure 401 clients_request) st'
    in isRefreshing st' \<and> refresh_posts st' = []
       \<and> out2 = Queued \<and> isRefreshing st'' \<and> refresh_posts st'' = []
       \<and> failedQueue st'' = [clients_request])"
  by (simp add: response_error_def failure_def protected_request_def clients_request_def
      tokenless_state_def is_auth_endpoint_def getItem_def logout_def assign_href_def
      removeItem_storage_def)

subsection \<open>Success of the refresh\<close>

text \<open>
  C4. When the refresh call succeeds and its body yields the access token \<open>t\<close>, the
  token is stored under \<open>access_token\<close>, and the replay of the triggering request
  and the replay of every waiter, in queue order, are sent with the header
  \<open>Bearer t\<close>, whatever token was stored before.
\<close>

theorem fresh_token_replay:
  assumes "read_access_token body = Inr (Some t)"
  shows "(let (out, outs, st') = refresh_completed originalRequest (Inr body) st in
           getItem (localStorage st') ''access_token'' = Some t
           \<and> out = Replayed (originalRequest\<lparr>authorization := Some (''Bearer '' @ t)\<rparr>)
           \<and> outs = map (\<lambda>w. Replayed (w\<lparr>authorization := Some (''Bearer '' @ t)\<rparr>))
                      (failedQueue st)
           \<and> sent st' = sent st @ [originalRequest\<lparr>authorization := Some (''Bearer '' @ t)\<rparr>]
                 @ map (\<lambda>w. w\<lparr>authorization := Some (''Bearer '' @ t)\<rparr>) (failedQueue st))"
  using refresh_succeeded_completed [OF assms, of originalRequest st]
  by (simp add: getItem_def setItem_def)

theorem fresh_token_replay_witness:
  "read_access_token token_body = Inr (Some ''new'')
   \<and> getItem (localStorage waiting_state) ''access_token'' = Some ''old''
   \<and> getItem (localStorage (snd (snd successful_refresh))) ''access_token'' = Some ''new''
   \<and> fst successful_refresh
       = Replayed (refresh_request\<lparr>authorization := Some ''Bearer new''\<rparr>)
   \<and> fst (snd successful_refresh)
       = [Replayed (clients_request\<lparr>authorization := Some ''Bearer new''\<rparr>),
          Replayed (protected_request\<lparr>authorization := Some ''Bearer new''\<rparr>)]
   \<and> sent (snd (snd successful_refresh))
       = [refresh_request\<lparr>authorization := Some ''Bearer new''\<rparr>,
          clients_request\<lparr>authorization := Some ''Bearer new''\<rparr>,
          protected_request\<lparr>authorization := Some ''Bearer new''\<rparr>]"
proof -
  have h: "read_access_token token_body = Inr (Some ''new'')"
    by (simp add: token_body_def)
  have v: "failedQueue waiting_state = [clients_request, protected_request]"
    "sent waiting_state = []"
    "getItem (localStorage waiting_state) ''access_token'' = Some ''old''"
    by (simp_all add: waiting_state_def getItem_def)
  from fresh_token_replay [OF h, of refresh_request waiting_state] h show ?thesis
    by (simp add: successful_refresh_def case_prod_beta v)
qed

text \<open>
  C9. A refresh that succeeds, whatever token its body yields, changes the storage at
  the key \<open>access_token\<close> only: every other key, \<open>refresh_token\<close> among them, keeps
  its value, and the next refresh posts the refresh token that was stored before.
\<close>

theorem refresh_frame_condition:
  assumes "read_access_token body = Inr tok"
  shows "(let (out, outs, st') = refresh_completed originalRequest (Inr body) st in
           localStorage st' = (localStorage st)(''access_token'' \<mapsto> string_of_optional tok)
           \<and> (\<forall>k. k \<noteq> ''access_token'' \<longrightarrow>
                  getItem (localStorage st') k = getItem (localStorage st) k)
           \<and> getItem (localStorage st') ''refresh_token''
               = getItem (localStorage st) ''refresh_token''
           \<and> (triggers_refresh error
                \<and> truthy (getItem (localStorage st) ''refresh_token'') \<longrightarrow>
              refresh_posts (snd (response_error error st'))
                = refresh_posts st
                  @ [string_of_nullable (getItem (localStorage st) ''refresh_token'')]))"
proof -
  let ?st' = "snd (snd (refresh_completed originalRequest (Inr body) st))"
  have ls: "localStorage ?st' = (localStorage st)(''access_token'' \<mapsto> string_of_optional tok)"
    and fl: "\<not> isRefreshing ?st'" and rp: "refresh_posts ?st' = refresh_posts st"
    using refresh_succeeded_completed [OF assms, of originalRequest st]
    by (simp_all add: setItem_def)
  have rt: "getItem (localStorage ?st') ''refresh_token''
      = getItem (localStorage st) ''refresh_token''"
    using ls by (simp add: getItem_def)
  have next_refresh: "refresh_posts (snd (response_error error ?st'))
      = refresh_posts st @ [string_of_nullable (getItem (localStorage st) ''refresh_token'')]"
    if t: "triggers_refresh error" and s: "truthy (getItem (localStorage st) ''refresh_token'')"
  proof -
    obtain r where r: "getItem (localStorage st) ''refresh_token'' = Some r" "r \<noteq> []"
      using s by (cases "getItem (localStorage st) ''refresh_token''") simp_all
    have "getItem (localStorage ?st') ''refresh_token'' = Some r"
      using rt r(1) by simp
    from first_failure_posts_refresh [OF t fl this r(2)] r(1) rp show ?thesis
      by (simp add: post_refresh_def)
  qed
  show ?thesis
    using ls rt next_refresh by (simp add: case_prod_beta getItem_def)
qed

theorem refresh_frame_condition_witness:
  "read_access_token token_body = Inr (Some ''new'')
   \<and> getItem (localStorage waiting_state) ''refresh_token'' = Some ''r1''
   \<and> getItem (localStorage (snd (snd successful_refresh))) ''refresh_token'' = Some ''r1''
   \<and> triggers_refresh (failure 401 clients_request)
   \<and> truthy (getItem (localStorage waiting_state) ''refresh_token'')
   \<and> refresh_posts (snd (response_error (failure 401 clients_request)
        (snd (snd successful_refresh)))) = [''r1'', ''r1'']"
proof -
  have h: "read_access_token token_body = Inr (Some ''new'')"
    by (simp add: token_body_def)
  have v: "getItem (localStorage waiting_state) ''refresh_token'' = Some ''r1''"
    "refresh_posts waiting_state = [''r1'']"
    "triggers_refresh (failure 401 clients_request)"
    by (simp_all add: waiting_state_def getItem_def failure_def clients_request_def
        is_auth_endpoint_def)
  from refresh_frame_condition [OF h, of refresh_request waiting_state
      "failure 401 clients_request"] h v
  show ?thesis
    by (simp add: successful_refresh_def case_prod_beta getItem_def)
qed

subsection \<open>Failures that do not enter the refresh protocol\<close>

text \<open>
  C5. A 401 on a request whose URL contains the path of the sign-in, sign-up or
  refresh-token endpoint is rejected at once with the original error, and the state
  of the client (flag, queue, storage, posted refresh calls, sent requests, location)
  is unchanged.
\<close>

theorem auth_endpoint_exemption:
  assumes "error_config error = Some originalRequest"
      and "url originalRequest = Some u"
      and "includes_str u ''/auth/sign-in'' \<or> includes_str u ''/auth/sign-up''
           \<or> includes_str u ''/auth/refresh-token''"
      and "response_status error = Some 401"
  shows "response_error error st = (Rejected error, st)"
  using assms by (simp add: response_error_def is_auth_endpoint_def)

theorem auth_endpoint_exemption_witness:
  "error_config (failure 401 sign_in_request) = Some sign_in_request
   \<and> url sign_in_request = Some ''/v1/public/auth/sign-in''
   \<and> includes_str ''/v1/public/auth/sign-in'' ''/auth/sign-in''
   \<and> response_status (failure 401 sign_in_request) = Some 401
   \<and> response_error (failure 401 sign_in_request) signed_in_state
       = (Rejected (failure 401 sign_in_request), signed_in_state)"
  using auth_endpoint_exemption [of "failure 401 sign_in_request" sign_in_request
      "''/v1/public/auth/sign-in''" signed_in_state]
  by (simp add: failure_def sign_in_request_def)

text \<open>
  C6. A failure whose status is not 401 (or that has no response at all), and a 401
  on a request already marked as retried, is rejected with the same error and
  leaves the state of the client unchanged: no refresh call, no waiter, no change of
  the storage, no assignment to the location.
\<close>

theorem non_401_pass_through:
  assumes "response_status error \<noteq> Some 401
           \<or> (\<exists>c. error_config error = Some c \<and> retry c)"
  shows "response_error error st = (Rejected error, st)"
  using assms by (auto simp add: response_error_def)

theorem non_401_pass_through_witness:
  "response_status (failure 500 protected_request) \<noteq> Some 401
   \<and> response_error (failure 500 protected_request) signed_in_state
       = (Rejected (failure 500 protected_request), signed_in_state)
   \<and> error_config (failure 401 refresh_request) = Some refresh_request
   \<and> retry refresh_request
   \<and> response_error (failure 401 refresh_request) signed_in_state
       = (Rejected (failure 401 refresh_request), signed_in_state)
   \<and> response_error (Error ''Network Error'') signed_in_state
       = (Rejected (Error ''Network Error''), signed_in_state)"
  using non_401_pass_through [of "failure 500 protected_request" signed_in_state]
    non_401_pass_through [of "failure 401 refresh_request" signed_in_state]
    non_401_pass_through [of "Error ''Network Error''" signed_in_state]
  by (simp add: failure_def refresh_request_def protected_request_def)

section \<open>Properties of signing in\<close>

lemma deactivated_account_restorable:
  "deactivated_account error \<Longrightarrow> restorable_403 error \<and> \<not> nullish_body_403 error"
proof (cases error rule: deactivated_account.cases)
  case (1 c r)
  assume d: "deactivated_account error"
  show ?thesis
  proof (cases "response_data r")
    case None
    with 1 d show ?thesis by simp
  next
    case (Some v)
    with 1 d show ?thesis by (cases v) simp_all
  qed
qed simp_all

lemma login_catch_restorable:
  assumes "\<not> nullish_body_403 error"
  shows "login_catch error =
     (if restorable_403 error then Error ''ACCOUNT_DEACTIVATED'' else error)"
proof (cases error rule: login_catch.cases)
  case (1 c r)
  show ?thesis
  proof (cases "response_data r")
    case None
    with 1 assms show ?thesis by simp
  next
    case (Some v)
    with 1 assms show ?thesis by (cases v) (simp_all add: Let_def)
  qed
qed simp_all

text \<open>
  C8, amended. When \<open>login\<close> fails, in its sign-in call or in the call that
  fetches the user, with status 403 and a body whose \<open>data.can_restore\<close> is true,
  it throws \<open>Error ACCOUNT_DEACTIVATED\<close>. For every failure other than a 403 whose
  body is null or undefined, it throws \<open>Error ACCOUNT_DEACTIVATED\<close> if the failure
  has status 403 and a truthy \<open>data.can_restore\<close>, and throws the failure itself,
  unchanged, otherwise.
\<close>

theorem deactivated_account_signal:
  assumes "signIn = Inl error \<or> (\<exists>tokens. signIn = Inr tokens \<and> currentUser = Inl error)"
  shows "(deactivated_account error \<longrightarrow>
            fst (login signIn currentUser st) = Inl (Error ''ACCOUNT_DEACTIVATED''))
         \<and> (\<not> nullish_body_403 error \<longrightarrow>
            fst (login signIn currentUser st) =
              Inl (if restorable_403 error then Error ''ACCOUNT_DEACTIVATED'' else error))"
proof -
  have thrown: "fst (login signIn currentUser st) = Inl (login_catch error)"
    using assms by (auto simp add: login_def Let_def)
  show ?thesis
    using thrown deactivated_account_restorable [of error] login_catch_restorable [of error]
    by auto
qed

theorem deactivated_account_signal_witness:
  "deactivated_account deactivated_response
   \<and> fst (login (Inl deactivated_response) (Inl (Error ''not called'')) signed_out)
       = Inl (Error ''ACCOUNT_DEACTIVATED'')
   \<and> \<not> nullish_body_403 numeric_flag_403 \<and> restorable_403 numeric_flag_403
   \<and> fst (login (Inl numeric_flag_403) (Inl (Error ''not called'')) signed_out)
       = Inl (Error ''ACCOUNT_DEACTIVATED'')
   \<and> \<not> nullish_body_403 (failure 403 sign_in_request)
   \<and> \<not> restorable_403 (failure 403 sign_in_request)
   \<and> fst (login (Inl (failure 403 sign_in_request)) (Inl (Error ''not called'')) signed_out)
       = Inl (failure 403 sign_in_request)
   \<and> \<not> nullish_body_403 (failure 500 protected_request)
   \<and> fst (login (Inr \<lparr>access_token = ''a1'', refresh_token = ''r1''\<rparr>)
            (Inl (failure 500 protected_request)) signed_out)
       = Inl (failure 500 protected_request)"
proof -
  have d: "deactivated_account deactivated_response"
    "\<not> nullish_body_403 numeric_flag_403" "restorable_403 numeric_flag_403"
    "\<not> nullish_body_403 (failure 403 sign_in_request)"
    "\<not> restorable_403 (failure 403 sign_in_request)"
    "\<not> nullish_body_403 (failure 500 protected_request)"
    "\<not> restorable_403 (failure 500 protected_request)"
    by (simp_all add: deactivated_response_def numeric_flag_403_def failure_def)
  from deactivated_account_signal [of "Inl deactivated_response" deactivated_response
        "Inl (Error ''not called'')" signed_out]
    deactivated_account_signal [of "Inl numeric_flag_403" numeric_flag_403
        "Inl (Error ''not called'')" signed_out]
    deactivated_account_signal [of "Inl (failure 403 sign_in_request)"
        "failure 403 sign_in_request" "Inl (Error ''not called'')" signed_out]
    deactivated_account_signal [of "Inr \<lparr>access_token = ''a1'', refresh_token = ''r1''\<rparr>"
        "failure 500 protected_request" "Inl (failure 500 protected_request)" signed_out]
    d
  show ?thesis by simp
qed

text \<open>
  C8 as the claim words it fails on two failures whose flag is not true: a 403 with
  the body \<open>null\<close> makes the \<open>catch\<close> block raise a \<open>TypeError\<close>, and a 403 whose
  flag is the number 1 is reported as a deactivated account. Neither is thrown again
  unchanged.
\<close>

theorem deactivated_account_signal_counterexample:
  "\<not> deactivated_account null_body_403
   \<and> fst (login (Inl null_body_403) (Inl (Error ''not called'')) signed_out)
       = Inl (TypeError ''Cannot read properties of null (reading data)'')
   \<and> fst (login (Inl null_body_403) (Inl (Error ''not called'')) signed_out)
       \<noteq> Inl null_body_403
   \<and> \<not> deactivated_account numeric_flag_403
   \<and> fst (login (Inl numeric_flag_403) (Inl (Error ''not called'')) signed_out)
       = Inl (Error ''ACCOUNT_DEACTIVATED'')
   \<and> fst (login (Inl numeric_flag_403) (Inl (Error ''not called'')) signed_out)
       \<noteq> Inl numeric_flag_403"
  by (simp add: login_def null_body_403_def numeric_flag_403_def)

section \<open>Properties of the invoice form\<close>

lemma item_updates_commute:
  "item\<lparr>unit_price := p, quantity := q, total_item := t\<rparr>
     = item\<lparr>quantity := q, unit_price := p, total_item := t\<rparr>"
  by (cases item) simp

text \<open>
  C7. After \<open>handleItemChange\<close> sets the quantity or the unit price of an item, the
  total of that item is the product of its quantity and its unit price. Setting the
  quantity to \<open>q\<close> and the unit price to \<open>p\<close> gives the same form data in both orders,
  with total \<open>q * p\<close>; with quantity 3 and unit price 1500 the total is 4500.
\<close>

theorem item_total_recomputation:
  assumes "index < length (items data)" and "j < length (items idata)"
  shows "(changes_amount change \<longrightarrow>
            (case handleItemChange index change data of
               None \<Rightarrow> False
             | Some d \<Rightarrow>
                 total_item (items d ! index)
                   = quantity (items d ! index) * unit_price (items d ! index)))
         \<and> Option.bind (handleItemChange index (Set_quantity q) data)
               (handleItemChange index (Set_unit_price p))
             = Some (data\<lparr>items := (items data)
                      [index := (items data ! index)
                         \<lparr>quantity := q, unit_price := p, total_item := q * p\<rparr>]\<rparr>)
         \<and> Option.bind (handleItemChange index (Set_unit_price p) data)
               (handleItemChange index (Set_quantity q))
             = Some (data\<lparr>items := (items data)
                      [index := (items data ! index)
                         \<lparr>quantity := q, unit_price := p, total_item := q * p\<rparr>]\<rparr>)
         \<and> map_option (\<lambda>d. total_item (items d ! j))
               (Option.bind (handleItemChange j (Set_quantity 3) idata)
                  (handleItemChange j (Set_unit_price 1500)))
             = Some (4500 :: int)
         \<and> map_option (\<lambda>d. total_item (items d ! j))
               (Option.bind (handleItemChange j (Set_unit_price 1500) idata)
                  (handleItemChange j (Set_quantity 3)))
             = Some (4500 :: int)"
proof (intro conjI impI)
  assume "changes_amount change"
  with assms(1) show "case handleItemChange index change data of
               None \<Rightarrow> False
             | Some d \<Rightarrow>
                 total_item (items d ! index)
                   = quantity (items d ! index) * unit_price (items d ! index)"
    by (simp add: handleItemChange_def Let_def)
qed (use assms in \<open>simp_all add: handleItemChange_def Let_def item_updates_commute\<close>)

theorem item_total_recomputation_witness:
  "(0 :: nat) < length (items example_invoiceData)
   \<and> changes_amount (Set_quantity (3 :: int))
   \<and> map_option (\<lambda>d. items d ! 0) (handleItemChange 0 (Set_quantity 3) example_invoiceData)
       = Some \<lparr>id_item = None, description = [], quantity = 3, unit_price = 0, total_item = 0\<rparr>
   \<and> map_option (\<lambda>d. items d ! 0)
       (Option.bind (handleItemChange 0 (Set_quantity 3) example_invoiceData)
          (handleItemChange 0 (Set_unit_price 1500)))
       = Some \<lparr>id_item = None, description = [], quantity = 3, unit_price = 1500,
               total_item = 4500\<rparr>
   \<and> map_option (\<lambda>d. items d ! 0)
       (Option.bind (handleItemChange 0 (Set_unit_price 1500) example_invoiceData)
          (handleItemChange 0 (Set_quantity 3)))
       = Some \<lparr>id_item = None, description = [], quantity = 3, unit_price = 1500,
               total_item = 4500\<rparr>"
proof -
  have h: "(0 :: nat) < length (items example_invoiceData)"
    by (simp add: example_invoiceData_def initial_invoiceData_def)
  have i: "items example_invoiceData ! 0
      = \<lparr>id_item = None, description = [], quantity = 1, unit_price = 0, total_item = 0\<rparr>"
    by (simp add: example_invoiceData_def initial_invoiceData_def new_item_def)
  have c: "handleItemChange 0 (Set_quantity 3) example_invoiceData
      = Some (example_invoiceData\<lparr>items := (items example_invoiceData)
          [0 := \<lparr>id_item = None, description = [], quantity = 3, unit_price = 0,
                 total_item = 0\<rparr>]\<rparr>)"
    using h by (simp add: handleItemChange_def i)
  from item_total_recomputation [OF h h, of "Set_quantity 3" 3 1500] h c show ?thesis
    by (simp add: i)
qed

text \<open>Removing by index shortens the list by one element at most.\<close>

lemma remove_index_length:
  "length (filter (\<lambda>(item, i). i \<noteq> index) (zip xs [0 ..< length xs]))
     = length xs - (if index < length xs then 1 else 0)"
proof (induction xs rule: rev_induct)
  case Nil
  then show ?case by simp
next
  case (snoc x xs)
  have z: "zip (xs @ [x]) [0 ..< length (xs @ [x])] = zip xs [0 ..< length xs] @ [(x, length xs)]"
    by simp
  show ?case
    unfolding z using snoc.IH by (auto simp add: less_Suc_eq)
qed

lemma removeItem_length:
  "1 \<le> length (items data) \<Longrightarrow> 1 \<le> length (items (removeItem index data))"
  using remove_index_length [of index "items data"]
  by (auto simp add: removeItem_def)

lemma form_step_keeps_item:
  assumes "1 \<le> length (items data)" "form_step clients op data = Some data'"
  shows "1 \<le> length (items data')"
proof (cases op)
  case AddItem
  with assms show ?thesis by (auto simp add: addItem_def)
next
  case (RemoveItem index)
  with assms removeItem_length [of data index] show ?thesis by auto
next
  case (ItemChange index change)
  with assms show ?thesis
    by (auto simp add: handleItemChange_def Let_def split: if_splits)
next
  case (InputChange field v)
  with assms show ?thesis by (auto simp add: handleInputChange_def)
next
  case (ClientSelect clientId)
  with assms show ?thesis
    by (auto simp add: handleClientSelect_def split: option.splits)
qed

lemma form_run_keeps_item:
  "1 \<le> length (items data) \<Longrightarrow> form_run clients ops data = Some data' \<Longrightarrow>
   1 \<le> length (items data')"
proof (induction ops arbitrary: data)
  case Nil
  then show ?case by simp
next
  case (Cons op ops)
  from Cons.prems(2) obtain d where d: "form_step clients op data = Some d"
    and r: "form_run clients ops d = Some data'"
    by (auto split: option.splits)
  from form_step_keeps_item [OF Cons.prems(1) d] have "1 \<le> length (items d)" .
  from Cons.IH [OF this r] show ?case .
qed

text \<open>
  C10. The initial form data holds one item, \<open>addItem\<close> appends one item,
  \<open>removeItem\<close> changes nothing when the list has exactly one element, every
  operation of the form keeps the list non-empty, and so the list is non-empty
  after any session of operations that starts from the initial form data.
\<close>

theorem items_never_empty:
  "length (items (initial_invoiceData invoice_number issue_date due_date
             :: 'n::{times,zero,one} invoice_form_data)) = 1
   \<and> items (addItem data) = items (data :: 'n invoice_form_data) @ [new_item]
   \<and> (length (items data) = 1 \<longrightarrow> removeItem index data = data)
   \<and> (1 \<le> length (items data) \<and> form_step clients op data = Some data'
        \<longrightarrow> 1 \<le> length (items data'))
   \<and> (form_run clients ops (initial_invoiceData invoice_number issue_date due_date) = Some data''
        \<longrightarrow> 1 \<le> length (items data''))"
proof (intro conjI impI)
  show "length (items (initial_invoiceData invoice_number issue_date due_date
             :: 'n invoice_form_data)) = 1"
    by (simp add: initial_invoiceData_def)
  show "items (addItem data) = items data @ [new_item]"
    by (simp add: addItem_def)
  show "removeItem index data = data" if "length (items data) = 1"
    using that by (simp add: removeItem_def)
  show "1 \<le> length (items data')"
    if "1 \<le> length (items data) \<and> form_step clients op data = Some data'"
    using that form_step_keeps_item by blast
  show "1 \<le> length (items data'')"
    if r: "form_run clients ops (initial_invoiceData invoice_number issue_date due_date) = Some data''"
    by (rule form_run_keeps_item [OF _ r]) (simp add: initial_invoiceData_def)
qed

theorem items_never_empty_witness:
  "length (items example_invoiceData) = 1
   \<and> removeItem 0 example_invoiceData = example_invoiceData
   \<and> form_step [] (RemoveItem 0) example_invoiceData = Some example_invoiceData
   \<and> form_run [] [AddItem, ItemChange 1 (Set_quantity 3), RemoveItem 0, RemoveItem 0]
        example_invoiceData
       = Some (example_invoiceData\<lparr>items := [new_item\<lparr>quantity := 3\<rparr>]\<rparr>)
   \<and> 1 \<le> length (items (example_invoiceData\<lparr>items := [new_item\<lparr>quantity := 3\<rparr>]\<rparr>))"
proof -
  have r: "form_run [] [AddItem, ItemChange 1 (Set_quantity 3), RemoveItem 0, RemoveItem 0]
        example_invoiceData
       = Some (example_invoiceData\<lparr>items := [new_item\<lparr>quantity := 3\<rparr>]\<rparr>)"
    by (simp add: example_invoiceData_def initial_invoiceData_def addItem_def removeItem_def
        handleItemChange_def new_item_def)
  have s: "form_step [] (RemoveItem 0) example_invoiceData = Some example_invoiceData"
    by (simp add: example_invoiceData_def initial_invoiceData_def removeItem_def)
  from items_never_empty [of "''INV-1''" "''2025-01-01''" "''2025-01-31''" example_invoiceData
      0 "[]" "RemoveItem 0" example_invoiceData
      "[AddItem, ItemChange 1 (Set_quantity 3), RemoveItem 0, RemoveItem 0]"
      "example_invoiceData\<lparr>items := [new_item\<lparr>quantity := 3\<rparr>]\<rparr>"] r s
  show ?thesis
    by (simp add: example_invoiceData_def)
qed

end
